theory Spec2Isabelle
  imports Main "HOL-Library.Sublist" "HOL-Library.Char_ord" "HOL-Library.List_Lexorder"
begin

section \<open>Release generation (releaseGen.py): a shallow embedding\<close>

text \<open>
  The script packages firmware build products into a Python-package zip file and a
  source tarball, and optionally tags and publishes a release. Its functions are
  embedded below as HOL functions. Python strings are \<open>string\<close>; string comparison
  is lexicographic on characters (\<open>Char_ord\<close>, \<open>List_Lexorder\<close>), as Python
  compares strings. Exceptions are values of the type \<open>error\<close>; the file system,
  the command line and the answers typed at prompts are explicit arguments.
\<close>

subsection \<open>Strings and paths\<close>

text \<open>Python's \<open>needle in hay\<close> on strings: \<open>needle\<close> occurs as a contiguous run.\<close>

fun contains :: "string \<Rightarrow> string \<Rightarrow> bool" where
  "contains needle [] = (needle = [])"
| "contains needle (c # cs) = (prefix needle (c # cs) \<or> contains needle cs)"

text \<open>
  \<open>s.replace(old, '')\<close>: every occurrence of \<open>old\<close>, found left to right without
  overlap, is deleted. (The script only calls it with a non-empty \<open>old\<close>; with an
  empty one Python returns \<open>s\<close>.)
\<close>

function str_remove :: "string \<Rightarrow> string \<Rightarrow> string" where
  "str_remove old s =
     (if old = [] \<or> s = [] then s
      else if prefix old s then str_remove old (drop (length old) s)
      else hd s # str_remove old (tl s))"
  by pat_completeness auto
termination
  by (relation "measure (\<lambda>(old, s). length s)") auto

declare str_remove.simps [simp del]

text \<open>\<open>s.endswith(suf)\<close> is \<open>suffix suf s\<close>; \<open>s.split('.')[0]\<close> is the text before the first dot.\<close>

definition split_dot_first :: "string \<Rightarrow> string" where
  "split_dot_first s = takeWhile (\<lambda>c. c \<noteq> CHR ''.'') s"

text \<open>\<open>os.path.join\<close> (POSIX) of two components, and of a list of further components.\<close>

definition os_path_join :: "string \<Rightarrow> string \<Rightarrow> string" where
  "os_path_join a b =
     (if prefix ''/'' b then b
      else if a = [] \<or> suffix ''/'' a then a @ b
      else a @ ''/'' @ b)"

definition os_path_joins :: "string \<Rightarrow> string list \<Rightarrow> string" where
  "os_path_joins a bs = foldl os_path_join a bs"

text \<open>\<open>os.path.basename\<close> (POSIX): the text after the last slash.\<close>

definition os_path_basename :: "string \<Rightarrow> string" where
  "os_path_basename p = rev (takeWhile (\<lambda>c. c \<noteq> CHR ''/'') (rev p))"

subsection \<open>Errors\<close>

text \<open>
  One constructor for each \<open>raise Exception(...)\<close> of the script, and one for each
  built-in exception that its statements can raise on the inputs modelled here.
\<close>

datatype error =
    LoadFailed                \<comment> \<open>Failed to load project release file\<close>
  | ReleasesMissing           \<comment> \<open>Releases key is missing or empty\<close>
  | TargetsMissing            \<comment> \<open>Targets key is missing or empty\<close>
  | InvalidReleaseArg         \<comment> \<open>Invalid command line release arg\<close>
  | InvalidReleaseIndex       \<comment> \<open>Invalid release index\<close>
  | ReleaseTargetsMissing     \<comment> \<open>Targets list in release is missing or empty\<close>
  | ReleaseTypesMissing       \<comment> \<open>Types list in release is missing or empty\<close>
  | TargetUndefined           \<comment> \<open>Referenced target is missing in target list\<close>
  | ExtensionsMissing         \<comment> \<open>Extensions list for target is missing or empty\<close>
  | InvalidBuildArg           \<comment> \<open>Invalid command line build arg\<close>
  | InvalidBuildIndex         \<comment> \<open>Invalid build index\<close>
  | RoguePackagesEmpty        \<comment> \<open>Rogue packages list is empty\<close>
  | TopPackageUndefined       \<comment> \<open>TopPackage is not defined\<close>
  | CpswPackagesEmpty         \<comment> \<open>Cpsw packages list is empty\<close>
  | RepoDirty                 \<comment> \<open>Cannot create tag! Git repo is dirty!\<close>
  | IndexError | KeyError | TypeError | AttributeError | ValueError | EOFError
  | OSError | GitCommandError

text \<open>
  The specification's error kinds. A validation error is a missing or empty
  configuration section, or an invalid name or index chosen by the user.
\<close>

definition is_validation_error :: "error \<Rightarrow> bool" where
  "is_validation_error e =
     (e \<in> {ReleasesMissing, TargetsMissing, InvalidReleaseArg, InvalidReleaseIndex,
            ReleaseTargetsMissing, ReleaseTypesMissing, TargetUndefined,
            ExtensionsMissing, InvalidBuildArg, InvalidBuildIndex, TopPackageUndefined})"

subsection \<open>The configuration\<close>

text \<open>
  The configuration is the dictionary that the YAML parser returns. A key of a
  dictionary is absent, present with the value \<open>None\<close> (written in YAML as a key
  with nothing after the colon), or present with a value.
\<close>

datatype 'a field = Absent | Null | Val 'a

text \<open>\<open>key in d and d[key] is not None\<close>, with the value.\<close>

fun given :: "'a field \<Rightarrow> 'a option" where
  "given (Val v) = Some v"
| "given Absent = None"
| "given Null = None"

datatype file_group = RoguePackages | RogueConfig | CpswSource | CpswConfig

record release_def =
  rel_Targets :: "string list field"
  rel_Types :: "string list field"
  rel_groups :: "file_group \<Rightarrow> string list field"

record target_def =
  Extensions :: "string list field"

text \<open>Dictionaries whose key order matters (\<open>list(d.keys())\<close>) are association lists.\<close>

record config =
  Releases :: "(string \<times> release_def) list field"
  Targets :: "(string \<times> target_def) list field"
  TopPackage :: "string field"
  groups :: "file_group \<Rightarrow> string list field"

text \<open>The parsed command line (\<open>args\<close>), as far as the functions below read it.\<close>

record args =
  project :: string
  release :: "string option"
  build :: "string option"

definition FirmwareDir :: "args \<Rightarrow> string" where
  "FirmwareDir a = os_path_join (project a) ''firmware''"

subsection \<open>The file system\<close>

text \<open>
  A node is a regular file with its text (as Python reads it in text mode), or a
  directory with its entries in the order the operating system lists them. The file
  system maps a path to the node it names, if any. Symbolic links are not modelled.
\<close>

datatype node = File string | Dir "(string \<times> node) list"

type_synonym filesystem = "string \<Rightarrow> node option"

definition dirnames :: "(string \<times> node) list \<Rightarrow> string list" where
  "dirnames es = map fst (filter (\<lambda>(n, c). case c of Dir _ \<Rightarrow> True | File _ \<Rightarrow> False) es)"

definition filenames :: "(string \<times> node) list \<Rightarrow> string list" where
  "filenames es = map fst (filter (\<lambda>(n, c). case c of Dir _ \<Rightarrow> False | File _ \<Rightarrow> True) es)"

text \<open>
  \<open>os.walk(base)\<close>, from the top down: the triple of the directory itself, then the walks of
  its sub-directories in listing order. On something that is not a directory it
  yields nothing.
\<close>

fun os_walk :: "string \<Rightarrow> node \<Rightarrow> (string \<times> string list \<times> string list) list" where
  "os_walk dirpath (File txt) = []"
| "os_walk dirpath (Dir es) =
     (dirpath, dirnames es, filenames es) #
     concat (map (\<lambda>p. os_walk (os_path_join dirpath (fst p)) (snd p)) es)"

subsection \<open>File selection (genFileList, selectFiles)\<close>

datatype entry_type = Folder | RegFile

record entry =
  type :: entry_type
  fullPath :: string
  subPath :: string

definition genFileList :: "string \<Rightarrow> string \<Rightarrow> string list \<Rightarrow> entry_type \<Rightarrow> entry list" where
  "genFileList base root entries typ =
     map (\<lambda>e. \<lparr>type = typ,
               fullPath = os_path_join root e,
               subPath = str_remove (base @ ''/'') (os_path_join root e)\<rparr>) entries"

text \<open>The directories of a group: the global list first, then the release's own.\<close>

definition group_dirs :: "config \<Rightarrow> release_def \<Rightarrow> file_group \<Rightarrow> string list" where
  "group_dirs cfg relData key =
     (case given (groups cfg key) of None \<Rightarrow> [] | Some ds \<Rightarrow> ds) @
     (case given (rel_groups relData key) of None \<Rightarrow> [] | Some ds \<Rightarrow> ds)"

definition walk_base :: "filesystem \<Rightarrow> string \<Rightarrow> entry list" where
  "walk_base fs base =
     (case fs base of
        None \<Rightarrow> []
      | Some n \<Rightarrow>
          concat (map (\<lambda>(root, folders, files).
                         genFileList base root folders Folder @
                         genFileList base root files RegFile)
                      (os_walk base n)))"

definition selectFiles :: "filesystem \<Rightarrow> args \<Rightarrow> config \<Rightarrow> release_def \<Rightarrow> file_group \<Rightarrow> entry list" where
  "selectFiles fs a cfg relData key =
     concat (map (\<lambda>d. walk_base fs (os_path_join (FirmwareDir a) d))
                 (group_dirs cfg relData key))"

subsection \<open>Loading the configuration (loadReleaseConfig)\<close>

text \<open>
  The argument is what reading and parsing \<open>releases.yaml\<close> gave: \<open>None\<close> when
  the file could not be read or parsed (the \<open>try\<close> block raised), else the parsed
  dictionary.
\<close>

definition loadReleaseConfig :: "config option \<Rightarrow> error + config" where
  "loadReleaseConfig parsed =
     (case parsed of
        None \<Rightarrow> Inl LoadFailed
      | Some cfg \<Rightarrow>
          if Releases cfg = Absent \<or> Releases cfg = Null then Inl ReleasesMissing
          else if Targets cfg = Absent \<or> Targets cfg = Null then Inl TargetsMissing
          else Inr cfg)"

subsection \<open>Prompts and indexing\<close>

text \<open>
  The lines typed at the prompts, in order. Each line is given by what \<open>int(...)\<close>
  makes of it: \<open>None\<close> is a line that is not an integer (\<open>ValueError\<close>); no line
  left is the end of the input (\<open>EOFError\<close>).
\<close>

type_synonym stdin = "int option list"

fun read_int :: "stdin \<Rightarrow> error + (int \<times> stdin)" where
  "read_int [] = Inl EOFError"
| "read_int (None # rest) = Inl ValueError"
| "read_int (Some i # rest) = Inr (i, rest)"

text \<open>\<open>xs[i]\<close>: a negative index counts from the end; out of range is an \<open>IndexError\<close>.\<close>

definition py_index :: "'a list \<Rightarrow> int \<Rightarrow> error + 'a" where
  "py_index xs i =
     (if 0 \<le> i \<and> i < int (length xs) then Inr (xs ! nat i)
      else if i < 0 \<and> 0 \<le> int (length xs) + i then Inr (xs ! nat (int (length xs) + i))
      else Inl IndexError)"

subsection \<open>Release selection (selectRelease)\<close>

text \<open>Lines 147 to 164: the name from the command line, the only release, or a prompt.\<close>

definition chooseRelease :: "string option \<Rightarrow> string list \<Rightarrow> stdin \<Rightarrow> error + (string \<times> stdin)" where
  "chooseRelease relArg keyList inp =
     (case relArg of
        Some relName \<Rightarrow>
          if relName \<notin> set keyList then Inl InvalidReleaseArg else Inr (relName, inp)
      | None \<Rightarrow>
          if length keyList = 1 then Inr (hd keyList, inp)
          else
            (case read_int inp of
               Inl e \<Rightarrow> Inl e
             | Inr (idx, rest) \<Rightarrow>
                 if idx \<ge> int (length keyList) then Inl InvalidReleaseIndex
                 else (case py_index keyList idx of
                         Inl e \<Rightarrow> Inl e
                       | Inr relName \<Rightarrow> Inr (relName, rest))))"

definition selectRelease :: "args \<Rightarrow> config \<Rightarrow> stdin \<Rightarrow> error + ((string \<times> release_def) \<times> stdin)" where
  "selectRelease a cfg inp =
     (case Releases cfg of
        Absent \<Rightarrow> Inl KeyError
      | Null \<Rightarrow> Inl AttributeError
      | Val rels \<Rightarrow>
          (case chooseRelease (release a) (map fst rels) inp of
             Inl e \<Rightarrow> Inl e
           | Inr (relName, rest) \<Rightarrow>
               (case map_of rels relName of
                  None \<Rightarrow> Inl KeyError
                | Some relData \<Rightarrow>
                    if rel_Targets relData = Absent \<or> rel_Targets relData = Null
                    then Inl ReleaseTargetsMissing
                    else if rel_Types relData = Absent \<or> rel_Types relData = Null
                    then Inl ReleaseTypesMissing
                    else Inr ((relName, relData), rest))))"

subsection \<open>Build selection (selectBuildImages)\<close>

text \<open>Line 191: the names in the image directory that are regular files, in listing order.\<close>

definition listdir_files :: "filesystem \<Rightarrow> string \<Rightarrow> error + string list" where
  "listdir_files fs imageDir =
     (case fs imageDir of
        Some (Dir es) \<Rightarrow> Inr (filenames es)
      | Some (File txt) \<Rightarrow> Inl OSError
      | None \<Rightarrow> Inl OSError)"

text \<open>Lines 196 to 202: the base names of the files that mention the target, sorted.\<close>

definition baseList :: "string \<Rightarrow> string list \<Rightarrow> string set" where
  "baseList target dirList = set (map split_dot_first (filter (contains target) dirList))"

definition sortList :: "string \<Rightarrow> string list \<Rightarrow> string list" where
  "sortList target dirList = sorted_list_of_set (baseList target dirList)"

text \<open>Lines 206 to 223: \<open>latest\<close>, a name from the command line, or a prompt.\<close>

definition chooseBuild :: "string option \<Rightarrow> string list \<Rightarrow> stdin \<Rightarrow> error + (string \<times> stdin)" where
  "chooseBuild buildArg sorted_names inp =
     (case buildArg of
        Some buildName \<Rightarrow>
          if buildName = ''latest'' then
            (case py_index sorted_names (- 1) of
               Inl e \<Rightarrow> Inl e
             | Inr latest \<Rightarrow> Inr (latest, inp))
          else if buildName \<notin> set sorted_names then Inl InvalidBuildArg
          else Inr (buildName, inp)
      | None \<Rightarrow>
          (case read_int inp of
             Inl e \<Rightarrow> Inl e
           | Inr (idx, rest) \<Rightarrow>
               if idx \<ge> int (length sorted_names) then Inl InvalidBuildIndex
               else (case py_index sorted_names idx of
                       Inl e \<Rightarrow> Inl e
                     | Inr buildName \<Rightarrow> Inr (buildName, rest))))"

text \<open>Lines 225 to 230: the files of the listing whose name is in \<open>tarList\<close>.\<close>

definition tarList :: "string \<Rightarrow> string list \<Rightarrow> string list" where
  "tarList buildName extensions = map (\<lambda>ext. buildName @ ''.'' @ ext) extensions"

definition targetImages :: "string \<Rightarrow> string list \<Rightarrow> string \<Rightarrow> string list \<Rightarrow> string list" where
  "targetImages imageDir dirList buildName extensions =
     map (os_path_join imageDir)
         (filter (\<lambda>f. f \<in> set (tarList buildName extensions)) dirList)"

definition imageDir :: "args \<Rightarrow> string \<Rightarrow> string" where
  "imageDir a target = os_path_joins (FirmwareDir a) [''targets'', target, ''images'']"

text \<open>The body of the loop over the release's targets: the images one target adds.\<close>

definition selectTarget :: "filesystem \<Rightarrow> args \<Rightarrow> config \<Rightarrow> string \<Rightarrow> stdin \<Rightarrow> error + (string list \<times> stdin)" where
  "selectTarget fs a cfg target inp =
     (case Targets cfg of
        Absent \<Rightarrow> Inl KeyError
      | Null \<Rightarrow> Inl TypeError
      | Val tgts \<Rightarrow>
          (case map_of tgts target of
             None \<Rightarrow> Inl TargetUndefined
           | Some td \<Rightarrow>
               (case given (Extensions td) of
                  None \<Rightarrow> Inl ExtensionsMissing
                | Some extensions \<Rightarrow>
                    (case listdir_files fs (imageDir a target) of
                       Inl e \<Rightarrow> Inl e
                     | Inr dirList \<Rightarrow>
                         (case chooseBuild (build a) (sortList target dirList) inp of
                            Inl e \<Rightarrow> Inl e
                          | Inr (buildName, rest) \<Rightarrow>
                              Inr (targetImages (imageDir a target) dirList buildName extensions,
                                   rest))))))"

fun selectTargets :: "filesystem \<Rightarrow> args \<Rightarrow> config \<Rightarrow> string list \<Rightarrow> string list \<Rightarrow> stdin \<Rightarrow> error + (string list \<times> stdin)" where
  "selectTargets fs a cfg [] retList inp = Inr (retList, inp)"
| "selectTargets fs a cfg (target # targets) retList inp =
     (case selectTarget fs a cfg target inp of
        Inl e \<Rightarrow> Inl e
      | Inr (images, rest) \<Rightarrow> selectTargets fs a cfg targets (retList @ images) rest)"

definition selectBuildImages :: "filesystem \<Rightarrow> args \<Rightarrow> config \<Rightarrow> release_def \<Rightarrow> stdin \<Rightarrow> error + (string list \<times> stdin)" where
  "selectBuildImages fs a cfg relData inp =
     (case rel_Targets relData of
        Absent \<Rightarrow> Inl KeyError
      | Null \<Rightarrow> Inl TypeError
      | Val targets \<Rightarrow> selectTargets fs a cfg targets [] inp)"

subsection \<open>The package archive (buildRogueFile)\<close>

abbreviation NL :: string where "NL \<equiv> [CHR 0x0A]"
abbreviation SQ :: string where "SQ \<equiv> [CHR 0x27]"

text \<open>
  The archive is the sequence of writes made to it: \<open>zf.write(filename, arcname)\<close>
  copies a file or directory of the file system under an archive name, and
  \<open>zf.open(name, 'w')\<close> followed by \<open>write(data)\<close> stores a text under a name.
\<close>

datatype zip_op = ZipWrite string string | ZipWriteStr string string

fun arcname :: "zip_op \<Rightarrow> string" where
  "arcname (ZipWrite filename dst) = dst"
| "arcname (ZipWriteStr dst payload) = dst"

text \<open>
  What a build leaves behind: the writes made to the archive file (\<open>None\<close> when the
  file was never created) and the exception that ended the build, if one did. The
  archive file is created when the \<open>with zipfile.ZipFile(zipName, 'w')\<close> block is
  entered and nothing in the function deletes it. The name of the archive file plays
  no part in what is written and is not an argument here; the paths written come from
  listings of the file system, and writing them is taken to succeed.
\<close>

record build_result =
  archive :: "zip_op list option"
  failure :: "error option"

text \<open>Lines 280 to 285, 305 and 316 to 317: the text of \<open>setup.py\<close>.\<close>

definition setupPy_head :: "string \<Rightarrow> string \<Rightarrow> string" where
  "setupPy_head relName ver =
     NL @ NL @ ''from distutils.core import setup'' @ NL @ NL @
     ''setup ('' @ NL @
     ''   name='' @ SQ @ relName @ SQ @ '','' @ NL @
     ''   version='' @ SQ @ ver @ SQ @ '','' @ NL @
     ''   packages=['' @ NL"

definition setupPy_package :: "string \<Rightarrow> string" where
  "setupPy_package dst = ''             '' @ SQ @ dst @ SQ @ '','' @ NL"

definition setupPy_tail :: "string \<Rightarrow> string" where
  "setupPy_tail topPkg =
     ''            ],'' @ NL @
     ''   package_data={'' @ SQ @ topPkg @ SQ @ '':['' @ SQ @ ''config/*'' @ SQ @ '',''
        @ SQ @ ''images/*'' @ SQ @ '']}'' @ NL @
     '')'' @ NL"

text \<open>
  Lines 293 to 303, the loop over the primary group. The state is the captured path
  of the initializer (\<open>topPath\<close>), the writes so far and the text of \<open>setup.py\<close> so far.
\<close>

fun packages_loop :: "string \<Rightarrow> entry list \<Rightarrow> string option \<times> zip_op list \<times> string \<Rightarrow> string option \<times> zip_op list \<times> string" where
  "packages_loop topInit [] st = st"
| "packages_loop topInit (e # es) (topPath, ops, setupPy) =
     packages_loop topInit es
       (if subPath e = topInit then Some (fullPath e) else topPath,
        if subPath e = topInit then ops else ops @ [ZipWrite (fullPath e) (subPath e)],
        if type e = Folder then setupPy @ setupPy_package (subPath e) else setupPy)"

text \<open>Iterating over a text file: its lines, each with its line end.\<close>

fun lines_from :: "string \<Rightarrow> string \<Rightarrow> string list" where
  "lines_from cur [] = (if cur = [] then [] else [cur])"
| "lines_from cur (c # cs) =
     (if c = CHR 0x0A then (cur @ [c]) # lines_from [] cs else lines_from (cur @ [c]) cs)"

definition file_lines :: "string \<Rightarrow> string list" where
  "file_lines txt = lines_from [] txt"

text \<open>Lines 325 to 328: a line is dropped when it mentions one of the four markers.\<close>

definition has_marker :: "string \<Rightarrow> bool" where
  "has_marker line =
     (contains ''import os'' line \<or> contains ''__version__'' line \<or>
      contains ''ConfigDir'' line \<or> contains ''ImageDir'' line)"

text \<open>Lines 331 to 337: the block appended to the initializer.\<close>

definition added_block :: "string \<Rightarrow> string" where
  "added_block ver =
     NL @ NL @
     ''##################### Added by release script ###################'' @ NL @
     ''import os'' @ NL @
     ''__version__ = '' @ SQ @ ver @ SQ @ NL @
     ''ConfigDir = os.path.dirname(__file__) + '' @ SQ @ ''/config'' @ SQ @ NL @
     ''ImageDir  = os.path.dirname(__file__) + '' @ SQ @ ''/images'' @ SQ @ NL @
     ''#################################################################'' @ NL"

definition newInit :: "string \<Rightarrow> string \<Rightarrow> string" where
  "newInit txt ver = concat (filter (\<lambda>line. \<not> has_marker line) (file_lines txt)) @ added_block ver"

definition config_writes :: "string \<Rightarrow> entry list \<Rightarrow> zip_op list" where
  "config_writes topPkg cList = map (\<lambda>e. ZipWrite (fullPath e) (topPkg @ ''/config/'' @ subPath e)) cList"

definition image_writes :: "string \<Rightarrow> string list \<Rightarrow> zip_op list" where
  "image_writes topPkg imgList = map (\<lambda>e. ZipWrite e (topPkg @ ''/images/'' @ os_path_basename e)) imgList"

definition buildRogueFile :: "filesystem \<Rightarrow> args \<Rightarrow> config \<Rightarrow> string \<Rightarrow> string \<Rightarrow> release_def \<Rightarrow> string list \<Rightarrow> build_result" where
  "buildRogueFile fs a cfg ver relName relData imgList =
     (let pList = selectFiles fs a cfg relData RoguePackages;
          cList = selectFiles fs a cfg relData RogueConfig
      in if length pList = 0 then \<lparr>archive = None, failure = Some RoguePackagesEmpty\<rparr>
         else
           (case given (TopPackage cfg) of
              None \<Rightarrow> \<lparr>archive = None, failure = Some TopPackageUndefined\<rparr>
            | Some topPkg \<Rightarrow>
                (let topInit = topPkg @ ''/__init__.py'';
                     (topPath, ops, setupPy) =
                        packages_loop topInit pList (None, [], setupPy_head relName ver);
                     written = ops @ config_writes topPkg cList @ image_writes topPkg imgList @
                               [ZipWriteStr ''setup.py'' (setupPy @ setupPy_tail topPkg)]
                 in (case topPath of
                       None \<Rightarrow> \<lparr>archive = Some written, failure = Some TypeError\<rparr>
                     | Some p \<Rightarrow>
                         (case fs p of
                            Some (File txt) \<Rightarrow>
                              \<lparr>archive = Some (written @ [ZipWriteStr topInit (newInit txt ver)]),
                               failure = None\<rparr>
                          | Some (Dir es) \<Rightarrow> \<lparr>archive = Some written, failure = Some OSError\<rparr>
                          | None \<Rightarrow> \<lparr>archive = Some written, failure = Some OSError\<rparr>)))))"

subsection \<open>The source archive (buildCpswFile)\<close>

text \<open>\<open>tf.add(name, arcname, recursive)\<close>.\<close>

datatype tar_op = TarAdd string string bool

fun tar_arcname :: "tar_op \<Rightarrow> string" where
  "tar_arcname (TarAdd name dst recursive) = dst"

fun tar_name :: "tar_op \<Rightarrow> string" where
  "tar_name (TarAdd name dst recursive) = name"

fun tar_recursive :: "tar_op \<Rightarrow> bool" where
  "tar_recursive (TarAdd name dst recursive) = recursive"

definition cpsw_adds :: "string \<Rightarrow> entry list \<Rightarrow> tar_op list" where
  "cpsw_adds pre es =
     map (\<lambda>e. TarAdd (fullPath e) (pre @ subPath e) False) (filter (\<lambda>e. type e = RegFile) es)"

definition buildCpswFile :: "filesystem \<Rightarrow> args \<Rightarrow> config \<Rightarrow> string \<Rightarrow> release_def \<Rightarrow> error + tar_op list" where
  "buildCpswFile fs a cfg relName relData =
     (let sList = selectFiles fs a cfg relData CpswSource;
          cList = selectFiles fs a cfg relData CpswConfig;
          baseDir = relName @ ''_project.yaml''
      in if length sList = 0 then Inl CpswPackagesEmpty
         else Inr (cpsw_adds (baseDir @ ''/'') sList @ cpsw_adds (baseDir @ ''/config/'') cList))"

subsection \<open>Publishing (pushRelease)\<close>

text \<open>
  The local repository and the hosting service, as far as the function changes them:
  the tags of the local repository, the tags pushed to the remote, and the releases
  created on the hosting service (tag, title, revision range of the notes, assets).
\<close>

record world =
  remote_url :: string
  is_dirty :: bool
  local_tags :: "(string \<times> string) list"
  pushed_tags :: "string list"
  remote_releases :: "(string \<times> string \<times> string \<times> string list) list"

text \<open>
  Line 369: the first match of \<open>slaclab/(?P<name>.*?)(?P<ext>\.git?)\<close>. The lazy
  group takes the fewest characters, none of them a line feed, up to the next \<open>.gi\<close>.
\<close>

fun lazy_name :: "string \<Rightarrow> string \<Rightarrow> string option" where
  "lazy_name acc [] = None"
| "lazy_name acc (c # cs) =
     (if prefix ''.gi'' (c # cs) then Some acc
      else if c = CHR 0x0A then None
      else lazy_name (acc @ [c]) cs)"

fun project_name :: "string \<Rightarrow> string option" where
  "project_name [] = None"
| "project_name (c # cs) =
     (if prefix ''slaclab/'' (c # cs) then
        (case lazy_name [] (drop 8 (c # cs)) of
           Some name \<Rightarrow> Some name
         | None \<Rightarrow> project_name cs)
      else project_name cs)"

text \<open>
  The result is the world the function leaves and the exception that ended it, if one
  did. Creating a tag that exists fails. Logging in, the text of the release notes
  and failures of the network are not modelled: the release is recorded with the
  revision range its notes are generated from.
\<close>

definition pushRelease :: "string \<Rightarrow> string \<Rightarrow> string list \<Rightarrow> string \<Rightarrow> world \<Rightarrow> world \<times> error option" where
  "pushRelease relName ver tagAttach prev w =
     (let url = (if suffix ''.git'' (remote_url w) then remote_url w else remote_url w @ ''.git'')
      in case project_name url of
           None \<Rightarrow> (w, Some AttributeError)
         | Some proj \<Rightarrow>
             if is_dirty w then (w, Some RepoDirty)
             else
               (let tag = relName @ ''_'' @ ver;
                    msg = relName @ '' version '' @ ver
                in if tag \<in> fst ` set (local_tags w) then (w, Some GitCommandError)
                   else
                     (let w1 = w\<lparr>local_tags := local_tags w @ [(tag, msg)]\<rparr>;
                          w2 = w1\<lparr>pushed_tags := pushed_tags w1 @ [tag]\<rparr>;
                          tagRange = relName @ ''_'' @ prev @ ''..'' @ relName @ ''_'' @ ver
                      in (w2\<lparr>remote_releases :=
                               remote_releases w2 @ [(tag, msg, tagRange, tagAttach)]\<rparr>,
                          None))))"

subsection \<open>Reading the generated descriptor\<close>

text \<open>
  The script only writes the descriptor; the round trip of the specification also
  needs its reader, which is Python itself. This is what Python reads back from the
  \<open>setup.py\<close> of an archive, as far as the name and the version go. The member of an
  archive under a name is the last one written under it. In the descriptor the name
  and the version are single-quoted string literals: a literal ends at the first
  quote that is not part of an escape sequence, and a line end or a null character
  inside it is an error. The top package and every package directory are literals of
  the same kind.
  How an escape sequence is decoded is left open: \<open>esc\<close> is given the text after a
  backslash and returns the decoded characters and the remaining text, or \<open>None\<close>
  for an invalid escape.
\<close>

definition read_member :: "filesystem \<Rightarrow> string \<Rightarrow> zip_op list \<Rightarrow> string option" where
  "read_member fs name ops =
     (case filter (\<lambda>op. arcname op = name) ops of
        [] \<Rightarrow> None
      | x # xs \<Rightarrow>
          (case last (x # xs) of
             ZipWriteStr dst payload \<Rightarrow> Some payload
           | ZipWrite filename dst \<Rightarrow>
               (case fs filename of Some (File body) \<Rightarrow> Some body | Some (Dir es) \<Rightarrow> None | None \<Rightarrow> None)))"

function read_literal :: "(string \<Rightarrow> (string \<times> string) option) \<Rightarrow> string \<Rightarrow> (string \<times> string) option" where
  "read_literal esc [] = None"
| "read_literal esc (c # cs) =
     (if c = CHR 0x27 then Some ([], cs)
      else if c = CHR 0x0A \<or> c = CHR 0x0D \<or> c = CHR 0x00 then None
      else if c = CHR 0x5C then
        (case esc cs of
           None \<Rightarrow> None
         | Some (decoded, rest) \<Rightarrow>
             if length rest < length cs
             then (case read_literal esc rest of
                     None \<Rightarrow> None
                   | Some (body, after) \<Rightarrow> Some (decoded @ body, after))
             else None)
      else (case read_literal esc cs of
              None \<Rightarrow> None
            | Some (body, after) \<Rightarrow> Some (c # body, after)))"
  by pat_completeness auto
termination
  by (relation "measure (\<lambda>(esc, s). length s)") auto

definition strip_prefix :: "string \<Rightarrow> string \<Rightarrow> string option" where
  "strip_prefix p s = (if prefix p s then Some (drop (length p) s) else None)"

text \<open>
  The fixed text of the descriptor around its literals: before the name, between the
  name and the version, before the list of packages, before and after each package,
  between the list and the top package, and after the top package to the end.
\<close>

definition descriptor_open :: string where
  "descriptor_open =
     NL @ NL @ ''from distutils.core import setup'' @ NL @ NL @
     ''setup ('' @ NL @ ''   name='' @ SQ"

definition descriptor_mid :: string where
  "descriptor_mid = '','' @ NL @ ''   version='' @ SQ"

definition packages_open :: string where
  "packages_open = '','' @ NL @ ''   packages=['' @ NL"

definition package_open :: string where
  "package_open = ''             '' @ SQ"

definition package_close :: string where
  "package_close = '','' @ NL"

definition packages_close :: string where
  "packages_close = ''            ],'' @ NL @ ''   package_data={'' @ SQ"

definition descriptor_end :: string where
  "descriptor_end =
     '':['' @ SQ @ ''config/*'' @ SQ @ '','' @ SQ @ ''images/*'' @ SQ @ '']}'' @ NL @ '')'' @ NL"

text \<open>
  The lines of the package list, each one literal, up to the first text that does
  not open a package line: the literals read and the text that is left.
\<close>

function read_packages :: "(string \<Rightarrow> (string \<times> string) option) \<Rightarrow> string \<Rightarrow> (string list \<times> string) option" where
  "read_packages esc s =
     (case strip_prefix package_open s of
        None \<Rightarrow> Some ([], s)
      | Some t1 \<Rightarrow>
          (case read_literal esc t1 of
             None \<Rightarrow> None
           | Some (pkg, t2) \<Rightarrow>
               (case strip_prefix package_close t2 of
                  None \<Rightarrow> None
                | Some t3 \<Rightarrow>
                    if length t3 < length s
                    then (case read_packages esc t3 of
                            None \<Rightarrow> None
                          | Some (pkgs, after) \<Rightarrow> Some (pkg # pkgs, after))
                    else None)))"
  by pat_completeness auto
termination
  by (relation "measure (\<lambda>(esc, s). length s)") auto

declare read_packages.simps [simp del]

text \<open>
  The whole descriptor is read, to its end: a text that is not of the generated
  layout, or that holds a literal Python cannot read, has no declared name. The
  result is the declared name and version.
\<close>

definition read_descriptor :: "(string \<Rightarrow> (string \<times> string) option) \<Rightarrow> string \<Rightarrow> (string \<times> string) option" where
  "read_descriptor esc text =
     (case strip_prefix descriptor_open text of
        None \<Rightarrow> None
      | Some t1 \<Rightarrow>
          (case read_literal esc t1 of
             None \<Rightarrow> None
           | Some (name, t2) \<Rightarrow>
               (case strip_prefix descriptor_mid t2 of
                  None \<Rightarrow> None
                | Some t3 \<Rightarrow>
                    (case read_literal esc t3 of
                       None \<Rightarrow> None
                     | Some (version, t4) \<Rightarrow>
                         (case strip_prefix packages_open t4 of
                            None \<Rightarrow> None
                          | Some t5 \<Rightarrow>
                              (case read_packages esc t5 of
                                 None \<Rightarrow> None
                               | Some (pkgs, t6) \<Rightarrow>
                                   (case strip_prefix packages_close t6 of
                                      None \<Rightarrow> None
                                    | Some t7 \<Rightarrow>
                                        (case read_literal esc t7 of
                                           None \<Rightarrow> None
                                         | Some (topName, t8) \<Rightarrow>
                                             if t8 = descriptor_end
                                             then Some (name, version)
                                             else None))))))))"

text \<open>The declared name and version of the descriptor of the archive a build left.\<close>

definition declared :: "(string \<Rightarrow> (string \<times> string) option) \<Rightarrow> filesystem \<Rightarrow> build_result \<Rightarrow> (string \<times> string) option" where
  "declared esc fs r =
     (case archive r of
        None \<Rightarrow> None
      | Some ops \<Rightarrow>
          (case read_member fs ''setup.py'' ops of
             None \<Rightarrow> None
           | Some text \<Rightarrow> read_descriptor esc text))"

text \<open>
  A string with no quote, backslash, line end or null character: pasted between
  quotes it is a literal that denotes it.
\<close>

definition plain :: "string \<Rightarrow> bool" where
  "plain s =
     list_all (\<lambda>c. c \<noteq> CHR 0x27 \<and> c \<noteq> CHR 0x5C \<and> c \<noteq> CHR 0x0A \<and> c \<noteq> CHR 0x0D \<and>
                   c \<noteq> CHR 0x00) s"

text \<open>An escape decoder that accepts nothing.\<close>

definition no_escape :: "string \<Rightarrow> (string \<times> string) option" where
  "no_escape s = None"

section \<open>Example inputs\<close>

text \<open>
  A target \<open>fw\<close> with the extensions \<open>bit\<close> and \<open>mcs\<close>, whose image
  directory lists \<open>fw_1.mcs\<close> before \<open>fw_1.bit\<close>; the build \<open>fw_1\<close> is asked
  for on the command line.
\<close>

definition ex_build_args :: args where
  "ex_build_args = \<lparr>project = ''p'', release = None, build = Some ''fw_1''\<rparr>"

definition ex_build_cfg :: config where
  "ex_build_cfg =
     \<lparr>Releases = Val [], Targets = Val [(''fw'', \<lparr>Extensions = Val [''bit'', ''mcs'']\<rparr>)],
      TopPackage = Absent, groups = (\<lambda>k. Absent)\<rparr>"

definition ex_build_fs :: filesystem where
  "ex_build_fs path =
     (if path = ''p/firmware/targets/fw/images''
      then Some (Dir [(''fw_1.mcs'', File []), (''fw_1.bit'', File [])])
      else None)"

text \<open>
  A source tree \<open>yaml\<close> named by the global \<open>CpswSource\<close> group and a
  configuration tree \<open>cfg\<close> named by the release's \<open>CpswConfig\<close> group.
\<close>

definition ex_cpsw_args :: args where
  "ex_cpsw_args = \<lparr>project = ''p'', release = None, build = None\<rparr>"

definition ex_cpsw_cfg :: config where
  "ex_cpsw_cfg =
     \<lparr>Releases = Val [], Targets = Val [], TopPackage = Absent,
      groups = (\<lambda>k. if k = CpswSource then Val [''yaml''] else Absent)\<rparr>"

definition ex_cpsw_rel :: release_def where
  "ex_cpsw_rel =
     \<lparr>rel_Targets = Val [], rel_Types = Val [''CPSW''],
      rel_groups = (\<lambda>k. if k = CpswConfig then Val [''cfg''] else Absent)\<rparr>"

definition ex_cpsw_fs :: filesystem where
  "ex_cpsw_fs path =
     (if path = ''p/firmware/yaml''
      then Some (Dir [(''top.yaml'', File ''a''), (''sub'', Dir [(''x.yaml'', File ''b'')])])
      else if path = ''p/firmware/cfg'' then Some (Dir [(''d.yaml'', File ''c'')])
      else None)"

text \<open>A repository with uncommitted changes and no tags.\<close>

definition ex_dirty_world :: world where
  "ex_dirty_world =
     \<lparr>remote_url = ''https://github.com/slaclab/ruckus'', is_dirty = True,
      local_tags = [], pushed_tags = [], remote_releases = []\<rparr>"

text \<open>
  A package tree \<open>python\<close> holding the top package \<open>pkg\<close> with its initializer
  and one module, and a configuration tree \<open>config\<close>.
\<close>

definition ex_rogue_args :: args where
  "ex_rogue_args = \<lparr>project = ''p'', release = None, build = None\<rparr>"

definition ex_rogue_cfg :: config where
  "ex_rogue_cfg =
     \<lparr>Releases = Val [], Targets = Val [], TopPackage = Val ''pkg'',
      groups = (\<lambda>k. if k = RoguePackages then Val [''python'']
                     else if k = RogueConfig then Val [''config''] else Absent)\<rparr>"

definition ex_rogue_rel :: release_def where
  "ex_rogue_rel = \<lparr>rel_Targets = Val [], rel_Types = Val [''Rogue''], rel_groups = (\<lambda>k. Absent)\<rparr>"

definition ex_init_text :: string where
  "ex_init_text =
     ''import os'' @ NL @ ''__version__ = 0'' @ NL @ ''ConfigDir = 1'' @ NL @
     ''x = 1'' @ NL @ ''ImageDir = 2'' @ NL @ ''y = 2'' @ NL"

definition ex_rogue_fs :: filesystem where
  "ex_rogue_fs path =
     (if path = ''p/firmware/python''
      then Some (Dir [(''pkg'', Dir [(''__init__.py'', File ex_init_text), (''mod.py'', File ''y'')])])
      else if path = ''p/firmware/python/pkg/__init__.py'' then Some (File ex_init_text)
      else if path = ''p/firmware/config'' then Some (Dir [(''defaults.yml'', File ''d'')])
      else None)"

definition ex_rogue_images :: "string list" where
  "ex_rogue_images = [''p/firmware/targets/fw/images/fw_1.bit'']"

text \<open>The same configuration with a top package that the package tree does not hold.\<close>

definition ex_other_cfg :: config where
  "ex_other_cfg = ex_rogue_cfg\<lparr>TopPackage := Val ''other''\<rparr>"

text \<open>
  A tree \<open>base\<close> with a file \<open>a.txt\<close> and a directory \<open>sub\<close> holding \<open>b.txt\<close>,
  named by the group once as \<open>base\<close> and once with a trailing slash.
\<close>

definition ex_tree :: node where
  "ex_tree = Dir [(''a.txt'', File ''A''), (''sub'', Dir [(''b.txt'', File ''B'')])]"

definition ex_tree_fs :: filesystem where
  "ex_tree_fs path =
     (if path = ''p/firmware/base'' \<or> path = ''p/firmware/base/'' then Some ex_tree else None)"

definition ex_tree_cfg :: "string \<Rightarrow> config" where
  "ex_tree_cfg d =
     \<lparr>Releases = Val [], Targets = Val [], TopPackage = Absent,
      groups = (\<lambda>k. if k = RoguePackages then Val [d] else Absent)\<rparr>"

section \<open>Properties\<close>

subsection \<open>Indexing and sorting\<close>

lemma py_index_last: "xs \<noteq> [] \<Longrightarrow> py_index xs (- 1) = Inr (last xs)"
  by (cases xs rule: rev_cases) (auto simp: py_index_def nat_add_distrib)

lemma py_index_negative:
  "i < 0 \<Longrightarrow> - int (length xs) \<le> i \<Longrightarrow> py_index xs i = Inr (xs ! nat (int (length xs) + i))"
  by (simp add: py_index_def)

lemma py_index_below: "i < - int (length xs) \<Longrightarrow> py_index xs i = Inl IndexError"
  by (simp add: py_index_def)

lemma sorted_last_greatest: "sorted xs \<Longrightarrow> x \<in> set xs \<Longrightarrow> x \<le> last xs"
  by (induction xs) auto

lemma last_sorted_list_of_set:
  fixes S :: "string set"
  assumes "finite S" "S \<noteq> {}"
  shows "last (sorted_list_of_set S) = Max S"
proof -
  let ?xs = "sorted_list_of_set S"
  have ne: "?xs \<noteq> []" using assms by simp
  have "last ?xs \<in> set ?xs" using ne by simp
  then have mem: "last ?xs \<in> S" using assms by simp
  have "\<And>y. y \<in> S \<Longrightarrow> y \<le> last ?xs"
    using assms sorted_last_greatest [of ?xs] by simp
  then show ?thesis using assms mem by (intro Max_eqI [symmetric])
qed

lemma finite_baseList: "finite (baseList target dirList)"
  by (simp add: baseList_def)

subsection \<open>Loading\<close>

text \<open>
  Claim C4, as the code has it. Loading a parsed configuration fails with the
  validation error of the \<open>Releases\<close> key exactly when that key is absent or null,
  fails with the validation error of the \<open>Targets\<close> key exactly when \<open>Releases\<close>
  has a value and \<open>Targets\<close> is absent or null, and returns the configuration
  unchanged exactly when both keys have a value. The value is not looked at: an
  empty mapping is a value.
\<close>

theorem load_fails_iff_absent_or_null:
  "(loadReleaseConfig (Some cfg) = Inl ReleasesMissing
      \<longleftrightarrow> Releases cfg = Absent \<or> Releases cfg = Null) \<and>
   (loadReleaseConfig (Some cfg) = Inl TargetsMissing
      \<longleftrightarrow> (\<exists>rels. Releases cfg = Val rels) \<and> (Targets cfg = Absent \<or> Targets cfg = Null)) \<and>
   (loadReleaseConfig (Some cfg) = Inr cfg
      \<longleftrightarrow> (\<exists>rels. Releases cfg = Val rels) \<and> (\<exists>tgts. Targets cfg = Val tgts)) \<and>
   is_validation_error ReleasesMissing \<and> is_validation_error TargetsMissing"
  by (cases "Releases cfg"; cases "Targets cfg")
     (simp_all add: loadReleaseConfig_def is_validation_error_def)

text \<open>
  Claim C4 as stated fails: a configuration whose \<open>Releases\<close> key is present with
  an empty mapping (YAML \<open>Releases: {}\<close>) is loaded and returned.
\<close>

theorem empty_releases_load_counterexample:
  "loadReleaseConfig
     (Some \<lparr>Releases = Val [], Targets = Val [(''T'', \<lparr>Extensions = Val [''bit'']\<rparr>)],
            TopPackage = Absent, groups = (\<lambda>k. Absent)\<rparr>) =
   Inr \<lparr>Releases = Val [], Targets = Val [(''T'', \<lparr>Extensions = Val [''bit'']\<rparr>)],
            TopPackage = Absent, groups = (\<lambda>k. Absent)\<rparr>"
  by (simp add: loadReleaseConfig_def)

subsection \<open>Selection\<close>

text \<open>
  Claim C3. When the candidate base names of a target are not empty, the build
  \<open>latest\<close> selects their greatest element in the lexicographic order of strings,
  which is the last element of the ascending sort. For the candidates \<open>fw_1\<close>,
  \<open>fw_2\<close> and \<open>fw_10\<close> it selects \<open>fw_2\<close>.
\<close>

theorem latest_is_lexicographic_max:
  "(baseList target dirList \<noteq> {} \<longrightarrow>
      chooseBuild (Some ''latest'') (sortList target dirList) inp =
        Inr (Max (baseList target dirList), inp) \<and>
      Max (baseList target dirList) = last (sortList target dirList)) \<and>
   chooseBuild (Some ''latest'')
      (sortList ''fw'' [''fw_1.bit'', ''fw_2.bit'', ''fw_10.bit'']) inp = Inr (''fw_2'', inp)"
proof (intro conjI impI)
  let ?S = "baseList target dirList"
  assume ne: "?S \<noteq> {}"
  have l: "last (sorted_list_of_set ?S) = Max ?S"
    using ne finite_baseList by (intro last_sorted_list_of_set)
  have "sorted_list_of_set ?S \<noteq> []" using ne finite_baseList by simp
  then have "py_index (sorted_list_of_set ?S) (- 1) = Inr (last (sorted_list_of_set ?S))"
    by (rule py_index_last)
  then show "chooseBuild (Some ''latest'') (sortList target dirList) inp = Inr (Max ?S, inp)"
    using l by (simp add: chooseBuild_def sortList_def)
  show "Max ?S = last (sortList target dirList)"
    using l by (simp add: sortList_def)
next
  have "sortList ''fw'' [''fw_1.bit'', ''fw_2.bit'', ''fw_10.bit''] = [''fw_1'', ''fw_10'', ''fw_2'']"
    by code_simp
  then show "chooseBuild (Some ''latest'')
      (sortList ''fw'' [''fw_1.bit'', ''fw_2.bit'', ''fw_10.bit'']) inp = Inr (''fw_2'', inp)"
    by (simp add: chooseBuild_def py_index_def)
qed

theorem latest_is_lexicographic_max_witness:
  "baseList ''fw'' [''fw_1.bit'', ''fw_2.bit'', ''fw_10.bit''] \<noteq> {} \<and>
   chooseBuild (Some ''latest'') (sortList ''fw'' [''fw_1.bit'', ''fw_2.bit'', ''fw_10.bit'']) [] =
      Inr (Max (baseList ''fw'' [''fw_1.bit'', ''fw_2.bit'', ''fw_10.bit'']), []) \<and>
   Max (baseList ''fw'' [''fw_1.bit'', ''fw_2.bit'', ''fw_10.bit'']) = ''fw_2''"
proof -
  have ne: "baseList ''fw'' [''fw_1.bit'', ''fw_2.bit'', ''fw_10.bit''] \<noteq> {}"
    by (simp add: baseList_def)
  have s: "sortList ''fw'' [''fw_1.bit'', ''fw_2.bit'', ''fw_10.bit''] = [''fw_1'', ''fw_10'', ''fw_2'']"
    by code_simp
  from latest_is_lexicographic_max [of "''fw''" "[''fw_1.bit'', ''fw_2.bit'', ''fw_10.bit'']" "[]"] ne
  show ?thesis by (simp add: s)
qed

text \<open>
  Claim C10. At both index prompts the guard rejects exactly the indices that are not
  below the number of choices \<open>n\<close> (the release prompt is reached when the number of
  releases is not one). An index \<open>i\<close> with \<open>-n \<le> i < 0\<close> passes the guard, the
  selection does not fail, and it returns the choice at position \<open>n + i\<close>. (An index
  below \<open>-n\<close> passes the guard too; there the indexing itself raises.)
\<close>

theorem index_prompt_negative:
  "(chooseRelease None keyList (Some i # rest) = Inl InvalidReleaseIndex
      \<longleftrightarrow> length keyList \<noteq> 1 \<and> int (length keyList) \<le> i) \<and>
   (chooseBuild None names (Some i # rest) = Inl InvalidBuildIndex
      \<longleftrightarrow> int (length names) \<le> i) \<and>
   (length keyList \<noteq> 1 \<and> - int (length keyList) \<le> i \<and> i < 0 \<longrightarrow>
      chooseRelease None keyList (Some i # rest) =
        Inr (keyList ! nat (int (length keyList) + i), rest)) \<and>
   (- int (length names) \<le> i \<and> i < 0 \<longrightarrow>
      chooseBuild None names (Some i # rest) =
        Inr (names ! nat (int (length names) + i), rest)) \<and>
   (length keyList \<noteq> 1 \<and> i < - int (length keyList) \<longrightarrow>
      chooseRelease None keyList (Some i # rest) = Inl IndexError) \<and>
   (i < - int (length names) \<longrightarrow>
      chooseBuild None names (Some i # rest) = Inl IndexError)"
  by (auto simp: chooseRelease_def chooseBuild_def py_index_def)

theorem index_prompt_negative_witness:
  "chooseRelease None [''a'', ''b'', ''c''] [Some (- 1)] = Inr (''c'', []) \<and>
   chooseBuild None [''fw_1'', ''fw_2''] [Some (- 2)] = Inr (''fw_1'', []) \<and>
   chooseRelease None [''a'', ''b'', ''c''] [Some 3] = Inl InvalidReleaseIndex \<and>
   chooseBuild None [''fw_1'', ''fw_2''] [Some 2] = Inl InvalidBuildIndex"
  using index_prompt_negative [of "[''a'', ''b'', ''c'']" "- 1" "[]" "[''fw_1'', ''fw_2'']"]
        index_prompt_negative [of "[''a'', ''b'', ''c'']" "- 2" "[]" "[''fw_1'', ''fw_2'']"]
        index_prompt_negative [of "[''a'', ''b'', ''c'']" "3" "[]" "[''fw_1'', ''fw_2'']"]
        index_prompt_negative [of "[''a'', ''b'', ''c'']" "2" "[]" "[''fw_1'', ''fw_2'']"]
  by simp

lemma tarList_member:
  "f \<in> set (tarList buildName exts) \<longleftrightarrow> (\<exists>ext\<in>set exts. f = buildName @ ''.'' @ ext)"
  by (auto simp: tarList_def)

text \<open>
  Claim C5, as the code has it. For a target with declared extensions, an image
  directory listing and a chosen build base name, the images selected for the
  target are exactly the files of the listing whose name is the base name, a dot and
  a declared extension, joined to the image directory, in the order of the listing.
\<close>

theorem selected_images_in_listing_order:
  assumes "Targets cfg = Val tgts" and "map_of tgts target = Some td"
    and "Extensions td = Val exts"
    and "fs (imageDir a target) = Some (Dir es)"
    and "chooseBuild (build a) (sortList target (filenames es)) inp = Inr (buildName, rest)"
  shows "selectTarget fs a cfg target inp =
           Inr (map (os_path_join (imageDir a target))
                    (filter (\<lambda>f. \<exists>ext\<in>set exts. f = buildName @ ''.'' @ ext) (filenames es)),
                rest)"
  using assms
  by (simp add: selectTarget_def listdir_files_def targetImages_def tarList_member)

theorem selected_images_in_listing_order_witness:
  "selectTarget ex_build_fs ex_build_args ex_build_cfg ''fw'' [] =
     Inr (map (os_path_join (imageDir ex_build_args ''fw''))
              (filter (\<lambda>f. \<exists>ext\<in>set [''bit'', ''mcs'']. f = ''fw_1'' @ ''.'' @ ext)
                      (filenames [(''fw_1.mcs'', File []), (''fw_1.bit'', File [])])), [])"
proof -
  have d: "imageDir ex_build_args ''fw'' = ''p/firmware/targets/fw/images''"
    by code_simp
  have s: "sortList ''fw'' (filenames [(''fw_1.mcs'', File []), (''fw_1.bit'', File [])]) = [''fw_1'']"
    by code_simp
  have c: "chooseBuild (build ex_build_args) [''fw_1''] [] = Inr (''fw_1'', [])"
    by (simp add: chooseBuild_def ex_build_args_def)
  show ?thesis
    by (rule selected_images_in_listing_order
              [where tgts = "[(''fw'', \<lparr>Extensions = Val [''bit'', ''mcs'']\<rparr>)]"
                 and td = "\<lparr>Extensions = Val [''bit'', ''mcs'']\<rparr>"])
       (simp_all add: ex_build_cfg_def ex_build_fs_def d s c)
qed

text \<open>
  Claim C5 as stated fails: with the extensions declared as \<open>bit\<close>, \<open>mcs\<close> and a
  directory that lists \<open>fw_1.mcs\<close> first, the selected images are the \<open>mcs\<close> file
  and then the \<open>bit\<close> file, while the order of the declared extensions is \<open>bit\<close>,
  then \<open>mcs\<close>.
\<close>

theorem extension_order_counterexample:
  "selectTarget ex_build_fs ex_build_args ex_build_cfg ''fw'' [] =
     Inr ([''p/firmware/targets/fw/images/fw_1.mcs'', ''p/firmware/targets/fw/images/fw_1.bit''], []) \<and>
   map (os_path_join (imageDir ex_build_args ''fw'')) (tarList ''fw_1'' [''bit'', ''mcs'']) =
     [''p/firmware/targets/fw/images/fw_1.bit'', ''p/firmware/targets/fw/images/fw_1.mcs'']"
  by code_simp

subsection \<open>The source archive\<close>

text \<open>
  Claim C7. The build fails exactly when the source group resolves to no entry.
  Otherwise the archive holds, in this order, one member for each source-group entry
  of kind file, named \<open>{releaseName}_project.yaml/{relativePath}\<close>, and one for each
  config-group entry of kind file, named
  \<open>{releaseName}_project.yaml/config/{relativePath}\<close>. So every member's name starts
  with \<open>{releaseName}_project.yaml/\<close>, every member is added without recursion, and
  every member comes from an entry of kind file of one of the two groups.
\<close>

theorem source_archive_layout:
  "(buildCpswFile fs a cfg relName relData = Inl CpswPackagesEmpty
      \<longleftrightarrow> selectFiles fs a cfg relData CpswSource = []) \<and>
   (selectFiles fs a cfg relData CpswSource \<noteq> [] \<longrightarrow>
      buildCpswFile fs a cfg relName relData =
        Inr (map (\<lambda>e. TarAdd (fullPath e) (relName @ ''_project.yaml/'' @ subPath e) False)
                 (filter (\<lambda>e. type e = RegFile) (selectFiles fs a cfg relData CpswSource)) @
             map (\<lambda>e. TarAdd (fullPath e) (relName @ ''_project.yaml/config/'' @ subPath e) False)
                 (filter (\<lambda>e. type e = RegFile) (selectFiles fs a cfg relData CpswConfig)))) \<and>
   (\<forall>ops. buildCpswFile fs a cfg relName relData = Inr ops \<longrightarrow>
      (\<forall>op\<in>set ops. prefix (relName @ ''_project.yaml/'') (tar_arcname op) \<and>
                       \<not> tar_recursive op \<and>
                       (\<exists>e\<in>set (selectFiles fs a cfg relData CpswSource) \<union>
                              set (selectFiles fs a cfg relData CpswConfig).
                          type e = RegFile \<and> tar_name op = fullPath e)))"
  by (auto simp: buildCpswFile_def Let_def cpsw_adds_def)

theorem source_archive_layout_witness:
  "selectFiles ex_cpsw_fs ex_cpsw_args ex_cpsw_cfg ex_cpsw_rel CpswSource \<noteq> [] \<and>
   buildCpswFile ex_cpsw_fs ex_cpsw_args ex_cpsw_cfg ''rel'' ex_cpsw_rel =
     Inr [TarAdd ''p/firmware/yaml/top.yaml'' ''rel_project.yaml/top.yaml'' False,
          TarAdd ''p/firmware/yaml/sub/x.yaml'' ''rel_project.yaml/sub/x.yaml'' False,
          TarAdd ''p/firmware/cfg/d.yaml'' ''rel_project.yaml/config/d.yaml'' False]"
proof -
  have s: "selectFiles ex_cpsw_fs ex_cpsw_args ex_cpsw_cfg ex_cpsw_rel CpswSource =
     [\<lparr>type = Folder, fullPath = ''p/firmware/yaml/sub'', subPath = ''sub''\<rparr>,
      \<lparr>type = RegFile, fullPath = ''p/firmware/yaml/top.yaml'', subPath = ''top.yaml''\<rparr>,
      \<lparr>type = RegFile, fullPath = ''p/firmware/yaml/sub/x.yaml'', subPath = ''sub/x.yaml''\<rparr>]"
    by code_simp
  have c: "selectFiles ex_cpsw_fs ex_cpsw_args ex_cpsw_cfg ex_cpsw_rel CpswConfig =
     [\<lparr>type = RegFile, fullPath = ''p/firmware/cfg/d.yaml'', subPath = ''d.yaml''\<rparr>]"
    by code_simp
  from source_archive_layout [of ex_cpsw_fs ex_cpsw_args ex_cpsw_cfg "''rel''" ex_cpsw_rel]
  show ?thesis by (simp add: s c)
qed

subsection \<open>Publishing\<close>

text \<open>
  Claim C8. Publishing from a dirty working tree fails and leaves the world as it
  was: the failure is the dirty-tree error (or, when the remote URL does not name a
  project, the error of line 369, which comes first). Whenever the dirty-tree error
  is raised the tree was dirty, no tag has been created, none has been pushed, and
  nothing else has changed.
\<close>

theorem dirty_tree_changes_nothing:
  "(is_dirty w \<longrightarrow>
      fst (pushRelease relName ver tagAttach prev w) = w \<and>
      snd (pushRelease relName ver tagAttach prev w) \<in> {Some RepoDirty, Some AttributeError}) \<and>
   (snd (pushRelease relName ver tagAttach prev w) = Some RepoDirty \<longrightarrow>
      is_dirty w \<and>
      local_tags (fst (pushRelease relName ver tagAttach prev w)) = local_tags w \<and>
      pushed_tags (fst (pushRelease relName ver tagAttach prev w)) = pushed_tags w \<and>
      fst (pushRelease relName ver tagAttach prev w) = w)"
  by (auto simp: pushRelease_def Let_def split: option.splits if_splits)

theorem dirty_tree_changes_nothing_witness:
  "is_dirty ex_dirty_world \<and>
   pushRelease ''rel'' ''v2'' [''rogue_rel_v2.zip''] ''v1'' ex_dirty_world =
     (ex_dirty_world, Some RepoDirty)"
proof -
  have d: "is_dirty ex_dirty_world" by (simp add: ex_dirty_world_def)
  have e: "snd (pushRelease ''rel'' ''v2'' [''rogue_rel_v2.zip''] ''v1'' ex_dirty_world) = Some RepoDirty"
    by code_simp
  from dirty_tree_changes_nothing [of ex_dirty_world "''rel''" "''v2''" "[''rogue_rel_v2.zip'']" "''v1''"] d e
  show ?thesis by (simp add: prod_eq_iff)
qed

subsection \<open>The package archive\<close>

lemma packages_loop_topPath:
  "fst (packages_loop topInit es (tp, ops, sp)) =
     (if \<exists>e\<in>set es. subPath e = topInit
      then Some (fullPath (last (filter (\<lambda>e. subPath e = topInit) es))) else tp)"
  by (induction es arbitrary: tp ops sp) (auto simp: filter_empty_conv)

lemma packages_loop_ops:
  "fst (snd (packages_loop topInit es (tp, ops, sp))) =
     ops @ map (\<lambda>e. ZipWrite (fullPath e) (subPath e)) (filter (\<lambda>e. subPath e \<noteq> topInit) es)"
  by (induction es arbitrary: tp ops sp) auto

lemma packages_loop_setupPy:
  "snd (snd (packages_loop topInit es (tp, ops, sp))) =
     sp @ concat (map (\<lambda>e. setupPy_package (subPath e)) (filter (\<lambda>e. type e = Folder) es))"
  by (induction es arbitrary: tp ops sp) auto

lemma packages_loop_eq:
  "packages_loop topInit es (tp, ops, sp) =
     (if \<exists>e\<in>set es. subPath e = topInit
      then Some (fullPath (last (filter (\<lambda>e. subPath e = topInit) es))) else tp,
      ops @ map (\<lambda>e. ZipWrite (fullPath e) (subPath e)) (filter (\<lambda>e. subPath e \<noteq> topInit) es),
      sp @ concat (map (\<lambda>e. setupPy_package (subPath e)) (filter (\<lambda>e. type e = Folder) es)))"
  by (simp only: prod_eq_iff fst_conv snd_conv packages_loop_topPath packages_loop_ops
        packages_loop_setupPy simp_thms)

lemma setup_py_not_init: "''setup.py'' \<noteq> topPkg @ ''/__init__.py''"
proof
  assume "''setup.py'' = topPkg @ ''/__init__.py''"
  then have "length ''setup.py'' = length (topPkg @ ''/__init__.py'')" by (rule arg_cong)
  then show False by simp
qed

lemma no_config_write_at_init:
  "filter (\<lambda>op. arcname op = topPkg @ ''/__init__.py'') (config_writes topPkg cList) = []"
  by (induction cList) (simp_all add: config_writes_def)

lemma no_image_write_at_init:
  "filter (\<lambda>op. arcname op = topPkg @ ''/__init__.py'') (image_writes topPkg imgList) = []"
  by (induction imgList) (simp_all add: image_writes_def)

lemma no_raw_write_at_init:
  "filter (\<lambda>op. arcname op = topInit)
     (map (\<lambda>e. ZipWrite (fullPath e) (subPath e)) (filter (\<lambda>e. subPath e \<noteq> topInit) es)) = []"
  by (induction es) simp_all

lemma lines_from_concat: "concat (lines_from cur s) = cur @ s"
  by (induction s arbitrary: cur) auto

lemma concat_file_lines: "concat (file_lines txt) = txt"
  by (simp add: file_lines_def lines_from_concat)

lemma lines_from_shape:
  "CHR 0x0A \<notin> set cur \<Longrightarrow> l \<in> set (lines_from cur s) \<Longrightarrow> l \<noteq> [] \<and> CHR 0x0A \<notin> set (butlast l)"
proof (induction s arbitrary: cur)
  case Nil
  then show ?case by (auto split: if_splits dest: in_set_butlastD)
next
  case (Cons c cs)
  show ?case
  proof (cases "c = CHR 0x0A")
    case True
    with Cons.prems have "l = cur @ [c] \<or> l \<in> set (lines_from [] cs)" by simp
    then show ?thesis
    proof
      assume "l = cur @ [c]"
      with Cons.prems(1) show ?thesis by simp
    next
      assume "l \<in> set (lines_from [] cs)"
      with Cons.IH [of "[]"] show ?thesis by simp
    qed
  next
    case False
    with Cons.prems have "l \<in> set (lines_from (cur @ [c]) cs)" by simp
    moreover from False Cons.prems(1) have "CHR 0x0A \<notin> set (cur @ [c])" by simp
    ultimately show ?thesis by (rule Cons.IH [rotated])
  qed
qed

lemma lines_from_ends:
  "l \<in> set (butlast (lines_from cur s)) \<Longrightarrow> last l = CHR 0x0A"
  by (induction s arbitrary: cur) (auto split: if_splits)

lemma file_lines_shape:
  "l \<in> set (file_lines s) \<Longrightarrow> l \<noteq> [] \<and> CHR 0x0A \<notin> set (butlast l)"
  unfolding file_lines_def by (rule lines_from_shape) simp_all

lemma file_lines_ends: "l \<in> set (butlast (file_lines s)) \<Longrightarrow> last l = CHR 0x0A"
  unfolding file_lines_def by (rule lines_from_ends)

lemma contains_iff_sublist: "contains needle hay \<longleftrightarrow> sublist needle hay"
  by (induction hay) (simp_all add: sublist_Cons_right)

lemma has_marker_iff:
  "has_marker line \<longleftrightarrow>
     sublist ''import os'' line \<or> sublist ''__version__'' line \<or>
     sublist ''ConfigDir'' line \<or> sublist ''ImageDir'' line"
  by (simp add: has_marker_def contains_iff_sublist)


lemma buildRogueFile_eq:
  assumes "TopPackage cfg = Val topPkg"
    and "selectFiles fs a cfg relData RoguePackages = pList" and "pList \<noteq> []"
    and "selectFiles fs a cfg relData RogueConfig = cList"
    and "written =
           map (\<lambda>e. ZipWrite (fullPath e) (subPath e))
               (filter (\<lambda>e. subPath e \<noteq> topPkg @ ''/__init__.py'') pList) @
           config_writes topPkg cList @ image_writes topPkg imgList @
           [ZipWriteStr ''setup.py''
              (setupPy_head relName ver @
               concat (map (\<lambda>e. setupPy_package (subPath e)) (filter (\<lambda>e. type e = Folder) pList)) @
               setupPy_tail topPkg)]"
  shows "buildRogueFile fs a cfg ver relName relData imgList =
     (if \<exists>e\<in>set pList. subPath e = topPkg @ ''/__init__.py''
      then (case fs (fullPath (last (filter (\<lambda>e. subPath e = topPkg @ ''/__init__.py'') pList))) of
              Some (File txt) \<Rightarrow>
                \<lparr>archive = Some (written @ [ZipWriteStr (topPkg @ ''/__init__.py'') (newInit txt ver)]),
                 failure = None\<rparr>
            | Some (Dir es) \<Rightarrow> \<lparr>archive = Some written, failure = Some OSError\<rparr>
            | None \<Rightarrow> \<lparr>archive = Some written, failure = Some OSError\<rparr>)
      else \<lparr>archive = Some written, failure = Some TypeError\<rparr>)"
  using assms
  by (simp add: buildRogueFile_def Let_def packages_loop_eq split: option.splits node.splits)

lemma written_not_at_init:
  "filter (\<lambda>op. arcname op = topPkg @ ''/__init__.py'')
     (map (\<lambda>e. ZipWrite (fullPath e) (subPath e))
          (filter (\<lambda>e. subPath e \<noteq> topPkg @ ''/__init__.py'') pList) @
      config_writes topPkg cList @ image_writes topPkg imgList @
      [ZipWriteStr ''setup.py'' payload]) = []"
  using setup_py_not_init [of topPkg]
  by (simp add: no_raw_write_at_init no_config_write_at_init no_image_write_at_init)

text \<open>
  Claim C1. In the archive of a build that succeeds, the only member stored under
  the initializer's relative path \<open>{TopPackage}/__init__.py\<close> is a generated text:
  the primary-group entry with that relative path is not copied into the archive,
  and the text is the content of that entry's file without every line in which
  \<open>import os\<close>, \<open>__version__\<close>, \<open>ConfigDir\<close> or \<open>ImageDir\<close> occurs,
  followed by the added block, which assigns the supplied version string to
  \<open>__version__\<close> and sets the two path constants of the \<open>config\<close> and \<open>images\<close>
  sub-directories. The lines of a text are its pieces up to and including each line
  feed, and the rest after the last one if it is not empty.
\<close>

theorem initializer_is_rewritten:
  assumes "buildRogueFile fs a cfg ver relName relData imgList = \<lparr>archive = Some ops, failure = None\<rparr>"
  shows "\<exists>topPkg e txt.
           TopPackage cfg = Val topPkg \<and>
           e \<in> set (selectFiles fs a cfg relData RoguePackages) \<and>
           subPath e = topPkg @ ''/__init__.py'' \<and>
           fs (fullPath e) = Some (File txt) \<and>
           ZipWrite (fullPath e) (subPath e) \<notin> set ops \<and>
           filter (\<lambda>op. arcname op = topPkg @ ''/__init__.py'') ops =
             [ZipWriteStr (topPkg @ ''/__init__.py'')
                (concat (filter (\<lambda>line. \<not> sublist ''import os'' line \<and>
                                        \<not> sublist ''__version__'' line \<and>
                                        \<not> sublist ''ConfigDir'' line \<and>
                                        \<not> sublist ''ImageDir'' line)
                                (file_lines txt)) @
                 NL @ NL @
                 ''##################### Added by release script ###################'' @ NL @
                 ''import os'' @ NL @
                 ''__version__ = '' @ SQ @ ver @ SQ @ NL @
                 ''ConfigDir = os.path.dirname(__file__) + '' @ SQ @ ''/config'' @ SQ @ NL @
                 ''ImageDir  = os.path.dirname(__file__) + '' @ SQ @ ''/images'' @ SQ @ NL @
                 ''#################################################################'' @ NL)] \<and>
           concat (file_lines txt) = txt \<and>
           (\<forall>line\<in>set (file_lines txt). line \<noteq> [] \<and> CHR 0x0A \<notin> set (butlast line)) \<and>
           (\<forall>line\<in>set (butlast (file_lines txt)). last line = CHR 0x0A)"
proof -
  let ?pList = "selectFiles fs a cfg relData RoguePackages"
  let ?cList = "selectFiles fs a cfg relData RogueConfig"
  from assms have ne: "?pList \<noteq> []"
    by (auto simp: buildRogueFile_def Let_def)
  from assms ne obtain topPkg where top: "TopPackage cfg = Val topPkg"
    by (cases "TopPackage cfg") (auto simp: buildRogueFile_def Let_def)
  let ?init = "topPkg @ ''/__init__.py''"
  let ?hits = "filter (\<lambda>e. subPath e = ?init) ?pList"
  define written where "written =
           map (\<lambda>e. ZipWrite (fullPath e) (subPath e))
               (filter (\<lambda>e. subPath e \<noteq> ?init) ?pList) @
           config_writes topPkg ?cList @ image_writes topPkg imgList @
           [ZipWriteStr ''setup.py''
              (setupPy_head relName ver @
               concat (map (\<lambda>e. setupPy_package (subPath e)) (filter (\<lambda>e. type e = Folder) ?pList)) @
               setupPy_tail topPkg)]"
  note eq = buildRogueFile_eq [OF top refl ne refl written_def]
  from assms eq have ex: "\<exists>e\<in>set ?pList. subPath e = ?init"
    by (auto split: if_splits)
  then have hits: "?hits \<noteq> []" by (simp add: filter_empty_conv)
  let ?e = "last ?hits"
  have "?e \<in> set ?hits" using hits by (rule last_in_set)
  then have mem: "?e \<in> set ?pList" and sub: "subPath ?e = ?init" by simp_all
  from assms eq ex obtain body where isfile: "fs (fullPath ?e) = Some (File body)"
    and ops: "ops = written @ [ZipWriteStr ?init (newInit body ver)]"
    by (auto split: option.splits node.splits)
  have none: "filter (\<lambda>op. arcname op = ?init) written = []"
    unfolding written_def by (rule written_not_at_init)
  have only: "filter (\<lambda>op. arcname op = ?init) ops = [ZipWriteStr ?init (newInit body ver)]"
    using none by (simp add: ops)
  have "ZipWrite (fullPath ?e) (subPath ?e) \<notin> set ops"
  proof
    assume "ZipWrite (fullPath ?e) (subPath ?e) \<in> set ops"
    then have "ZipWrite (fullPath ?e) (subPath ?e) \<in> set (filter (\<lambda>op. arcname op = ?init) ops)"
      using sub by simp
    then show False unfolding only by simp
  qed
  have keep: "(\<lambda>line. \<not> has_marker line) =
      (\<lambda>line. \<not> sublist ''import os'' line \<and> \<not> sublist ''__version__'' line \<and>
              \<not> sublist ''ConfigDir'' line \<and> \<not> sublist ''ImageDir'' line)"
    by (rule ext) (simp add: has_marker_iff)
  have shape: "\<forall>line\<in>set (file_lines body). line \<noteq> [] \<and> CHR 0x0A \<notin> set (butlast line)"
    using file_lines_shape by blast
  have ends: "\<forall>line\<in>set (butlast (file_lines body)). last line = CHR 0x0A"
    using file_lines_ends by blast
  from only have only': "filter (\<lambda>op. arcname op = ?init) ops =
      [ZipWriteStr ?init
         (concat (filter (\<lambda>line. \<not> sublist ''import os'' line \<and> \<not> sublist ''__version__'' line \<and>
                                  \<not> sublist ''ConfigDir'' line \<and> \<not> sublist ''ImageDir'' line)
                         (file_lines body)) @ added_block ver)]"
    by (simp only: newInit_def keep)
  from top mem sub isfile \<open>ZipWrite (fullPath ?e) (subPath ?e) \<notin> set ops\<close> only' shape ends
  show ?thesis
    by (intro exI [of _ topPkg] exI [of _ ?e] exI [of _ body])
       (simp add: added_block_def concat_file_lines)
qed

lemma ex_rogue_pList:
  "selectFiles ex_rogue_fs ex_rogue_args ex_rogue_cfg ex_rogue_rel RoguePackages =
     [\<lparr>type = Folder, fullPath = ''p/firmware/python/pkg'', subPath = ''pkg''\<rparr>,
      \<lparr>type = RegFile, fullPath = ''p/firmware/python/pkg/__init__.py'', subPath = ''pkg/__init__.py''\<rparr>,
      \<lparr>type = RegFile, fullPath = ''p/firmware/python/pkg/mod.py'', subPath = ''pkg/mod.py''\<rparr>]"
  by code_simp

lemma ex_other_pList:
  "selectFiles ex_rogue_fs ex_rogue_args ex_other_cfg ex_rogue_rel RoguePackages =
     [\<lparr>type = Folder, fullPath = ''p/firmware/python/pkg'', subPath = ''pkg''\<rparr>,
      \<lparr>type = RegFile, fullPath = ''p/firmware/python/pkg/__init__.py'', subPath = ''pkg/__init__.py''\<rparr>,
      \<lparr>type = RegFile, fullPath = ''p/firmware/python/pkg/mod.py'', subPath = ''pkg/mod.py''\<rparr>]"
  by code_simp

lemma ex_rogue_build:
  "buildRogueFile ex_rogue_fs ex_rogue_args ex_rogue_cfg ''v1'' ''rel'' ex_rogue_rel ex_rogue_images =
     \<lparr>archive = Some
        [ZipWrite ''p/firmware/python/pkg'' ''pkg'',
         ZipWrite ''p/firmware/python/pkg/mod.py'' ''pkg/mod.py'',
         ZipWrite ''p/firmware/config/defaults.yml'' ''pkg/config/defaults.yml'',
         ZipWrite ''p/firmware/targets/fw/images/fw_1.bit'' ''pkg/images/fw_1.bit'',
         ZipWriteStr ''setup.py'' (setupPy_head ''rel'' ''v1'' @ setupPy_package ''pkg'' @ setupPy_tail ''pkg''),
         ZipWriteStr ''pkg/__init__.py'' (''x = 1'' @ NL @ ''y = 2'' @ NL @ added_block ''v1'')],
      failure = None\<rparr>"
  by code_simp

theorem initializer_is_rewritten_witness:
  "buildRogueFile ex_rogue_fs ex_rogue_args ex_rogue_cfg ''v1'' ''rel'' ex_rogue_rel ex_rogue_images =
     \<lparr>archive = Some
        [ZipWrite ''p/firmware/python/pkg'' ''pkg'',
         ZipWrite ''p/firmware/python/pkg/mod.py'' ''pkg/mod.py'',
         ZipWrite ''p/firmware/config/defaults.yml'' ''pkg/config/defaults.yml'',
         ZipWrite ''p/firmware/targets/fw/images/fw_1.bit'' ''pkg/images/fw_1.bit'',
         ZipWriteStr ''setup.py'' (setupPy_head ''rel'' ''v1'' @ setupPy_package ''pkg'' @ setupPy_tail ''pkg''),
         ZipWriteStr ''pkg/__init__.py'' (''x = 1'' @ NL @ ''y = 2'' @ NL @ added_block ''v1'')],
      failure = None\<rparr> \<and>
   (\<exists>e. e \<in> set (selectFiles ex_rogue_fs ex_rogue_args ex_rogue_cfg ex_rogue_rel RoguePackages) \<and>
      subPath e = ''pkg/__init__.py'' \<and> ex_rogue_fs (fullPath e) = Some (File ex_init_text) \<and>
      file_lines ex_init_text =
        [''import os'' @ NL, ''__version__ = 0'' @ NL, ''ConfigDir = 1'' @ NL, ''x = 1'' @ NL,
         ''ImageDir = 2'' @ NL, ''y = 2'' @ NL] \<and>
      concat (filter (\<lambda>line. \<not> sublist ''import os'' line \<and> \<not> sublist ''__version__'' line \<and>
                              \<not> sublist ''ConfigDir'' line \<and> \<not> sublist ''ImageDir'' line)
                     (file_lines ex_init_text)) = ''x = 1'' @ NL @ ''y = 2'' @ NL)"
proof -
  note b = ex_rogue_build
  from initializer_is_rewritten [OF b] obtain topPkg e body where
    t: "TopPackage ex_rogue_cfg = Val topPkg" and
    e: "e \<in> set (selectFiles ex_rogue_fs ex_rogue_args ex_rogue_cfg ex_rogue_rel RoguePackages)"
       "subPath e = topPkg @ ''/__init__.py''" "ex_rogue_fs (fullPath e) = Some (File body)" and
    f: "filter (\<lambda>op. arcname op = topPkg @ ''/__init__.py'')
         [ZipWrite ''p/firmware/python/pkg'' ''pkg'',
          ZipWrite ''p/firmware/python/pkg/mod.py'' ''pkg/mod.py'',
          ZipWrite ''p/firmware/config/defaults.yml'' ''pkg/config/defaults.yml'',
          ZipWrite ''p/firmware/targets/fw/images/fw_1.bit'' ''pkg/images/fw_1.bit'',
          ZipWriteStr ''setup.py'' (setupPy_head ''rel'' ''v1'' @ setupPy_package ''pkg'' @ setupPy_tail ''pkg''),
          ZipWriteStr ''pkg/__init__.py'' (''x = 1'' @ NL @ ''y = 2'' @ NL @ added_block ''v1'')] =
        [ZipWriteStr (topPkg @ ''/__init__.py'')
           (concat (filter (\<lambda>line. \<not> sublist ''import os'' line \<and> \<not> sublist ''__version__'' line \<and>
                                   \<not> sublist ''ConfigDir'' line \<and> \<not> sublist ''ImageDir'' line)
                           (file_lines body)) @ added_block ''v1'')]"
    unfolding added_block_def by blast
  from t have tp: "topPkg = ''pkg''" by (simp add: ex_rogue_cfg_def)
  from e(1,2) have "fullPath e = ''p/firmware/python/pkg/__init__.py''"
    unfolding tp ex_rogue_pList by auto
  with e(3) have body: "body = ex_init_text" by (simp add: ex_rogue_fs_def)
  have l: "file_lines ex_init_text =
        [''import os'' @ NL, ''__version__ = 0'' @ NL, ''ConfigDir = 1'' @ NL, ''x = 1'' @ NL,
         ''ImageDir = 2'' @ NL, ''y = 2'' @ NL]"
    by code_simp
  from f have "concat (filter (\<lambda>line. \<not> sublist ''import os'' line \<and> \<not> sublist ''__version__'' line \<and>
                                   \<not> sublist ''ConfigDir'' line \<and> \<not> sublist ''ImageDir'' line)
                           (file_lines body)) = ''x = 1'' @ NL @ ''y = 2'' @ NL"
    unfolding tp by simp
  with e b l show ?thesis unfolding tp body by auto
qed

text \<open>
  Claim C9. A build succeeds only if the primary group has an entry whose relative
  path is \<open>{TopPackage}/__init__.py\<close>. When the group is not empty, the top package
  is configured and no entry has that path, the build fails on opening the captured
  path, which was never set; by then every primary-group entry, every configuration
  file, every image and \<open>setup.py\<close> have been written to the archive, which stays.
\<close>

theorem missing_initializer_fails_late:
  "(failure (buildRogueFile fs a cfg ver relName relData imgList) = None \<longrightarrow>
      (\<exists>topPkg. TopPackage cfg = Val topPkg \<and>
         (\<exists>e\<in>set (selectFiles fs a cfg relData RoguePackages).
            subPath e = topPkg @ ''/__init__.py''))) \<and>
   (selectFiles fs a cfg relData RoguePackages \<noteq> [] \<and> TopPackage cfg = Val topPkg \<and>
    (\<forall>e\<in>set (selectFiles fs a cfg relData RoguePackages). subPath e \<noteq> topPkg @ ''/__init__.py'') \<longrightarrow>
      buildRogueFile fs a cfg ver relName relData imgList =
        \<lparr>archive = Some
           (map (\<lambda>e. ZipWrite (fullPath e) (subPath e)) (selectFiles fs a cfg relData RoguePackages) @
            config_writes topPkg (selectFiles fs a cfg relData RogueConfig) @
            image_writes topPkg imgList @
            [ZipWriteStr ''setup.py''
               (setupPy_head relName ver @
                concat (map (\<lambda>e. setupPy_package (subPath e))
                            (filter (\<lambda>e. type e = Folder) (selectFiles fs a cfg relData RoguePackages))) @
                setupPy_tail topPkg)]),
         failure = Some TypeError\<rparr>)"
proof (intro conjI impI)
  let ?pList = "selectFiles fs a cfg relData RoguePackages"
  assume ok: "failure (buildRogueFile fs a cfg ver relName relData imgList) = None"
  then have ne: "?pList \<noteq> []"
    by (auto simp: buildRogueFile_def Let_def)
  from ok ne obtain t where top: "TopPackage cfg = Val t"
    by (cases "TopPackage cfg") (auto simp: buildRogueFile_def Let_def)
  from ok have "\<exists>e\<in>set ?pList. subPath e = t @ ''/__init__.py''"
    unfolding buildRogueFile_eq [OF top refl ne refl refl]
    by (auto split: if_splits)
  with top show "\<exists>topPkg. TopPackage cfg = Val topPkg \<and>
         (\<exists>e\<in>set ?pList. subPath e = topPkg @ ''/__init__.py'')"
    by blast
next
  let ?pList = "selectFiles fs a cfg relData RoguePackages"
  assume h: "?pList \<noteq> [] \<and> TopPackage cfg = Val topPkg \<and>
    (\<forall>e\<in>set ?pList. subPath e \<noteq> topPkg @ ''/__init__.py'')"
  then have ne: "?pList \<noteq> []" and top: "TopPackage cfg = Val topPkg"
    and none: "\<forall>e\<in>set ?pList. subPath e \<noteq> topPkg @ ''/__init__.py''"
    by simp_all
  from none have all: "filter (\<lambda>e. subPath e \<noteq> topPkg @ ''/__init__.py'') ?pList = ?pList"
    by (simp add: filter_id_conv)
  show "buildRogueFile fs a cfg ver relName relData imgList =
        \<lparr>archive = Some
           (map (\<lambda>e. ZipWrite (fullPath e) (subPath e)) ?pList @
            config_writes topPkg (selectFiles fs a cfg relData RogueConfig) @
            image_writes topPkg imgList @
            [ZipWriteStr ''setup.py''
               (setupPy_head relName ver @
                concat (map (\<lambda>e. setupPy_package (subPath e))
                            (filter (\<lambda>e. type e = Folder) ?pList)) @
                setupPy_tail topPkg)]),
         failure = Some TypeError\<rparr>"
    unfolding buildRogueFile_eq [OF top refl ne refl refl]
    using none by (simp add: all)
qed

theorem missing_initializer_fails_late_witness:
  "selectFiles ex_rogue_fs ex_rogue_args ex_other_cfg ex_rogue_rel RoguePackages \<noteq> [] \<and>
   TopPackage ex_other_cfg = Val ''other'' \<and>
   buildRogueFile ex_rogue_fs ex_rogue_args ex_other_cfg ''v1'' ''rel'' ex_rogue_rel ex_rogue_images =
     \<lparr>archive = Some
        [ZipWrite ''p/firmware/python/pkg'' ''pkg'',
         ZipWrite ''p/firmware/python/pkg/__init__.py'' ''pkg/__init__.py'',
         ZipWrite ''p/firmware/python/pkg/mod.py'' ''pkg/mod.py'',
         ZipWrite ''p/firmware/config/defaults.yml'' ''other/config/defaults.yml'',
         ZipWrite ''p/firmware/targets/fw/images/fw_1.bit'' ''other/images/fw_1.bit'',
         ZipWriteStr ''setup.py'' (setupPy_head ''rel'' ''v1'' @ setupPy_package ''pkg'' @ setupPy_tail ''other'')],
      failure = Some TypeError\<rparr>"
proof -
  have t: "TopPackage ex_other_cfg = Val ''other''"
    by (simp add: ex_other_cfg_def)
  have c: "selectFiles ex_rogue_fs ex_rogue_args ex_other_cfg ex_rogue_rel RogueConfig =
     [\<lparr>type = RegFile, fullPath = ''p/firmware/config/defaults.yml'', subPath = ''defaults.yml''\<rparr>]"
    by code_simp
  from missing_initializer_fails_late
         [of ex_rogue_fs ex_rogue_args ex_other_cfg "''v1''" "''rel''" ex_rogue_rel ex_rogue_images "''other''"]
  show ?thesis
    by (simp add: t c ex_other_pList config_writes_def image_writes_def ex_rogue_images_def
          os_path_basename_def)
qed

subsection \<open>The generated descriptor\<close>

lemma strip_prefix_append: "strip_prefix p (p @ s) = Some s"
  by (simp add: strip_prefix_def)

lemma read_literal_plain: "plain s \<Longrightarrow> read_literal esc (s @ SQ @ rest) = Some (s, rest)"
  by (induction s) (simp_all add: plain_def)

lemma setupPy_head_split:
  "setupPy_head relName ver =
     descriptor_open @ relName @ SQ @ descriptor_mid @ ver @ SQ @ packages_open"
  by (simp add: setupPy_head_def descriptor_open_def descriptor_mid_def packages_open_def)

lemma setupPy_package_split: "setupPy_package dst = package_open @ dst @ SQ @ package_close"
  by (simp add: setupPy_package_def package_open_def package_close_def)

lemma setupPy_tail_split: "setupPy_tail topPkg = packages_close @ topPkg @ SQ @ descriptor_end"
  by (simp add: setupPy_tail_def packages_close_def descriptor_end_def)

lemma no_package_at_close: "strip_prefix package_open (packages_close @ s) = None"
  by (simp add: strip_prefix_def package_open_def packages_close_def)

lemma read_packages_plain:
  assumes "list_all plain dsts" and "strip_prefix package_open rest = None"
  shows "read_packages esc (concat (map setupPy_package dsts) @ rest) = Some (dsts, rest)"
  using assms(1)
proof (induction dsts)
  case Nil
  show ?case by (subst read_packages.simps) (simp add: assms(2))
next
  case (Cons d ds)
  then have d: "plain d" and ds: "list_all plain ds" by simp_all
  let ?after = "concat (map setupPy_package ds) @ rest"
  have t: "concat (map setupPy_package (d # ds)) @ rest =
             package_open @ d @ SQ @ package_close @ ?after"
    by (simp add: setupPy_package_split)
  have len: "length ?after < length (package_open @ d @ SQ @ package_close @ ?after)"
    by (simp add: package_open_def)
  show ?case
    unfolding t
    by (subst read_packages.simps)
       (simp only: strip_prefix_append read_literal_plain [OF d] Cons.IH [OF ds] len
          option.case prod.case if_True)
qed

lemma read_descriptor_generated:
  assumes "plain relName" and "plain ver" and "plain topPkg" and "list_all plain dsts"
  shows "read_descriptor esc
           (setupPy_head relName ver @ concat (map setupPy_package dsts) @ setupPy_tail topPkg) =
         Some (relName, ver)"
proof -
  have t: "setupPy_head relName ver @ concat (map setupPy_package dsts) @ setupPy_tail topPkg =
      descriptor_open @ relName @ SQ @ descriptor_mid @ ver @ SQ @ packages_open @
        (concat (map setupPy_package dsts) @ (packages_close @ topPkg @ SQ @ descriptor_end))"
    by (simp add: setupPy_head_split setupPy_tail_split)
  show ?thesis
    unfolding t read_descriptor_def
    by (simp only: strip_prefix_append read_literal_plain [OF assms(1)]
          read_literal_plain [OF assms(2)] read_literal_plain [OF assms(3)]
          read_packages_plain [OF assms(4) no_package_at_close]
          option.case prod.case if_True refl simp_thms)
qed

lemma read_member_generated:
  assumes "filter (\<lambda>op. arcname op = name) ys = []"
  shows "read_member fs name (xs @ ZipWriteStr name payload # ys) = Some payload"
proof -
  define found where "found = filter (\<lambda>op. arcname op = name) (xs @ ZipWriteStr name payload # ys)"
  have "found = filter (\<lambda>op. arcname op = name) xs @ [ZipWriteStr name payload]"
    using assms by (simp add: found_def)
  then have "found \<noteq> []" and "last found = ZipWriteStr name payload"
    by simp_all
  then show ?thesis
    unfolding read_member_def found_def [symmetric] by (cases found) simp_all
qed

text \<open>
  Claim C2, as the code has it. The release name, the version string, the top
  package and every package directory are pasted between quotes as they are. When a
  build succeeds and none of them contains a quote, a backslash, a line end or a null
  character, the member \<open>setup.py\<close> of the archive is the generated descriptor,
  and reading it, to its end, yields exactly the release name as the declared name
  and exactly the version string as the declared version, however escape sequences
  are decoded.
\<close>

theorem descriptor_round_trip:
  assumes "buildRogueFile fs a cfg ver relName relData imgList = \<lparr>archive = Some ops, failure = None\<rparr>"
    and "plain relName" and "plain ver"
    and "TopPackage cfg = Val topPkg" and "plain topPkg"
    and "\<forall>e\<in>set (selectFiles fs a cfg relData RoguePackages). type e = Folder \<longrightarrow> plain (subPath e)"
  shows "(\<exists>tailtext. read_member fs ''setup.py'' ops = Some (setupPy_head relName ver @ tailtext)) \<and>
         declared esc fs (buildRogueFile fs a cfg ver relName relData imgList) = Some (relName, ver)"
proof -
  let ?pList = "selectFiles fs a cfg relData RoguePackages"
  let ?dsts = "map subPath (filter (\<lambda>e. type e = Folder) ?pList)"
  let ?text = "setupPy_head relName ver @ concat (map setupPy_package ?dsts) @ setupPy_tail topPkg"
  from assms(1) have ne: "?pList \<noteq> []"
    by (auto simp: buildRogueFile_def Let_def)
  note eq = buildRogueFile_eq [OF assms(4) refl ne refl refl, of ver relName imgList]
  from assms(1) obtain front body where
    ops: "ops = front @ ZipWriteStr ''setup.py'' ?text #
                  [ZipWriteStr (topPkg @ ''/__init__.py'') body]"
    unfolding eq by (auto simp: comp_def split: if_splits option.splits node.splits)
  have "filter (\<lambda>op. arcname op = ''setup.py'') [ZipWriteStr (topPkg @ ''/__init__.py'') body] = []"
    using setup_py_not_init [of topPkg] by auto
  then have m: "read_member fs ''setup.py'' ops = Some ?text"
    unfolding ops by (rule read_member_generated)
  have dsts: "list_all plain ?dsts"
    using assms(6) by (auto simp: list_all_iff)
  have "declared esc fs (buildRogueFile fs a cfg ver relName relData imgList) = read_descriptor esc ?text"
    by (simp add: declared_def assms(1) m)
  also have "\<dots> = Some (relName, ver)"
    using assms(2,3,5) dsts by (rule read_descriptor_generated)
  finally show ?thesis using m by blast
qed

theorem descriptor_round_trip_witness:
  "buildRogueFile ex_rogue_fs ex_rogue_args ex_rogue_cfg ''v1'' ''rel'' ex_rogue_rel ex_rogue_images =
     \<lparr>archive = Some
        [ZipWrite ''p/firmware/python/pkg'' ''pkg'',
         ZipWrite ''p/firmware/python/pkg/mod.py'' ''pkg/mod.py'',
         ZipWrite ''p/firmware/config/defaults.yml'' ''pkg/config/defaults.yml'',
         ZipWrite ''p/firmware/targets/fw/images/fw_1.bit'' ''pkg/images/fw_1.bit'',
         ZipWriteStr ''setup.py'' (setupPy_head ''rel'' ''v1'' @ setupPy_package ''pkg'' @ setupPy_tail ''pkg''),
         ZipWriteStr ''pkg/__init__.py'' (''x = 1'' @ NL @ ''y = 2'' @ NL @ added_block ''v1'')],
      failure = None\<rparr> \<and>
   plain ''rel'' \<and> plain ''v1'' \<and> TopPackage ex_rogue_cfg = Val ''pkg'' \<and> plain ''pkg'' \<and>
   map subPath (filter (\<lambda>e. type e = Folder)
     (selectFiles ex_rogue_fs ex_rogue_args ex_rogue_cfg ex_rogue_rel RoguePackages)) = [''pkg''] \<and>
   declared no_escape ex_rogue_fs
     (buildRogueFile ex_rogue_fs ex_rogue_args ex_rogue_cfg ''v1'' ''rel'' ex_rogue_rel ex_rogue_images) =
     Some (''rel'', ''v1'')"
proof -
  have p: "plain ''rel''" "plain ''v1''" by (simp_all add: plain_def)
  have t: "TopPackage ex_rogue_cfg = Val ''pkg''" by (simp add: ex_rogue_cfg_def)
  have q: "plain ''pkg''" by (simp add: plain_def)
  have d: "\<forall>e\<in>set (selectFiles ex_rogue_fs ex_rogue_args ex_rogue_cfg ex_rogue_rel RoguePackages).
             type e = Folder \<longrightarrow> plain (subPath e)"
    unfolding ex_rogue_pList by (simp add: plain_def)
  from descriptor_round_trip [OF ex_rogue_build p t q d, of no_escape] ex_rogue_build p t q
  show ?thesis by (simp add: ex_rogue_pList)
qed

text \<open>
  Claim C2 as stated fails. For the release name \<open>it's\<close> the build succeeds and
  the name literal of the descriptor ends after \<open>it\<close>, so reading the descriptor
  does not yield the release name.
\<close>

theorem quoted_name_counterexample:
  "failure (buildRogueFile ex_rogue_fs ex_rogue_args ex_rogue_cfg ''v1'' (''it'' @ SQ @ ''s'')
              ex_rogue_rel ex_rogue_images) = None \<and>
   declared no_escape ex_rogue_fs
     (buildRogueFile ex_rogue_fs ex_rogue_args ex_rogue_cfg ''v1'' (''it'' @ SQ @ ''s'')
        ex_rogue_rel ex_rogue_images) \<noteq> Some (''it'' @ SQ @ ''s'', ''v1'')"
  by code_simp

text \<open>The same holds for every decoder of escape sequences and every version string.\<close>

lemma quoted_name_any_decoder:
  "read_descriptor esc (setupPy_head (''it'' @ SQ @ ''s'') ver @ tailtext) = None"
  by (simp add: read_descriptor_def setupPy_head_def descriptor_open_def descriptor_mid_def
        strip_prefix_def)

text \<open>
  A quote in a package directory or in the top package leaves a descriptor that
  cannot be read, also when the release name and the version string are plain.
\<close>

lemma quoted_directory_unreadable:
  "read_descriptor esc
     (setupPy_head ''rel'' ''v1'' @ setupPy_package (''pkg/it'' @ SQ @ ''s'') @ setupPy_tail ''pkg'') = None"
proof -
  have "read_packages esc (setupPy_package (''pkg/it'' @ SQ @ ''s'') @ setupPy_tail ''pkg'') = None"
    by (subst read_packages.simps)
       (simp add: setupPy_package_def package_open_def package_close_def strip_prefix_def)
  then show ?thesis
    by (simp add: read_descriptor_def setupPy_head_def descriptor_open_def descriptor_mid_def
          packages_open_def strip_prefix_def)
qed

lemma quoted_top_package_unreadable:
  "read_descriptor esc
     (setupPy_head ''rel'' ''v1'' @ setupPy_package ''pkg'' @ setupPy_tail (''pk'' @ SQ @ ''g'')) = None"
proof -
  have p: "list_all plain [''pkg'']" by (simp add: plain_def)
  have "read_packages esc (concat (map setupPy_package [''pkg'']) @ packages_close @ (''pk'' @ SQ @ ''g'') @ SQ @ descriptor_end)
          = Some ([''pkg''], packages_close @ (''pk'' @ SQ @ ''g'') @ SQ @ descriptor_end)"
    using p no_package_at_close by (rule read_packages_plain)
  then have r: "read_packages esc (setupPy_package ''pkg'' @ setupPy_tail (''pk'' @ SQ @ ''g''))
          = Some ([''pkg''], packages_close @ (''pk'' @ SQ @ ''g'') @ SQ @ descriptor_end)"
    by (simp add: setupPy_tail_split)
  have h: "setupPy_head ''rel'' ''v1'' @ setupPy_package ''pkg'' @ setupPy_tail (''pk'' @ SQ @ ''g'') =
      descriptor_open @ ''rel'' @ SQ @ descriptor_mid @ ''v1'' @ SQ @ packages_open @
        (setupPy_package ''pkg'' @ setupPy_tail (''pk'' @ SQ @ ''g''))"
    by (simp add: setupPy_head_split)
  have q: "plain ''rel''" "plain ''v1''" by (simp_all add: plain_def)
  have l: "read_literal esc ((''pk'' @ SQ @ ''g'') @ SQ @ descriptor_end) = Some (''pk'', ''g'' @ SQ @ descriptor_end)"
    by simp
  have ne: "''g'' @ SQ @ descriptor_end \<noteq> descriptor_end"
    by (simp add: descriptor_end_def)
  show ?thesis
    unfolding h read_descriptor_def
    by (simp only: strip_prefix_append read_literal_plain [OF q(1)] read_literal_plain [OF q(2)]
          r l ne option.case prod.case if_False)
qed

subsection \<open>File selection\<close>

text \<open>
  On the tree \<open>base\<close> with \<open>a.txt\<close> and \<open>sub/b.txt\<close>, named by the group as
  \<open>base\<close>, the entries are the directory \<open>sub\<close> and the two files, with the
  relative paths \<open>sub\<close>, \<open>a.txt\<close> and \<open>sub/b.txt\<close>.
\<close>

lemma ex_tree_selected:
  "selectFiles ex_tree_fs ex_rogue_args (ex_tree_cfg ''base'') ex_rogue_rel RoguePackages =
     [\<lparr>type = Folder, fullPath = ''p/firmware/base/sub'', subPath = ''sub''\<rparr>,
      \<lparr>type = RegFile, fullPath = ''p/firmware/base/a.txt'', subPath = ''a.txt''\<rparr>,
      \<lparr>type = RegFile, fullPath = ''p/firmware/base/sub/b.txt'', subPath = ''sub/b.txt''\<rparr>]"
  by code_simp

text \<open>
  Claim C6 at a failing input. When the group names the same tree as \<open>base/\<close>,
  the joined base directory ends with a slash, the text removed from each path is
  the base directory followed by a second slash, which occurs in no path, and every
  relative path is the full path, base directory included.
\<close>

theorem trailing_slash_keeps_prefix:
  "selectFiles ex_tree_fs ex_rogue_args (ex_tree_cfg ''base/'') ex_rogue_rel RoguePackages =
     [\<lparr>type = Folder, fullPath = ''p/firmware/base/sub'', subPath = ''p/firmware/base/sub''\<rparr>,
      \<lparr>type = RegFile, fullPath = ''p/firmware/base/a.txt'', subPath = ''p/firmware/base/a.txt''\<rparr>,
      \<lparr>type = RegFile, fullPath = ''p/firmware/base/sub/b.txt'',
       subPath = ''p/firmware/base/sub/b.txt''\<rparr>]"
  by code_simp

text \<open>
  Where the removed text occurs only at the front of a path, removing it strips the
  prefix.
\<close>

lemma contains_unfold: "contains old s \<longleftrightarrow> prefix old s \<or> (s \<noteq> [] \<and> contains old (tl s))"
  by (cases s) auto

lemma str_remove_absent: "\<not> contains old s \<Longrightarrow> str_remove old s = s"
proof (induction old s rule: str_remove.induct)
  case (1 old s)
  show ?case
  proof (cases "old = [] \<or> s = []")
    case True
    then show ?thesis by (simp add: str_remove.simps)
  next
    case False
    with "1.prems" have np: "\<not> prefix old s" and nt: "\<not> contains old (tl s)"
      using contains_unfold [of old s] by auto
    from "1.IH"(2) [OF False np nt] False np show ?thesis
      by (subst str_remove.simps) simp
  qed
qed

lemma str_remove_prefix:
  "old \<noteq> [] \<Longrightarrow> \<not> contains old s \<Longrightarrow> str_remove old (old @ s) = s"
  by (subst str_remove.simps) (simp add: str_remove_absent)

end
